theory Spec2Isabelle
  imports Complex_Main "HOL-Library.Log_Nat" "HOL-Library.AList" "HOL-Library.Multiset"
begin

section \<open>Python values used by the inventory and sales script\<close>

subsection \<open>Floats\<close>

text \<open>
  Prices, percentages and amounts of \<^verbatim>\<open>simulacro.py\<close> are Python floats, that is IEEE 754
  binary64 numbers. A finite float is modelled by the rational number it denotes. Every
  arithmetic operation computes the exact result and rounds it to the nearest binary64
  (ties to the even significand), which \<open>fl\<close> does: 53 bits of significand, gradual
  underflow below \<open>2 ^ - 1022\<close>. Infinities and NaN are not represented, and neither is
  what the interpreter does beyond the largest finite value (a result that overflows,
  the \<^verbatim>\<open>OverflowError\<close> of converting an \<^verbatim>\<open>int\<close> of that size): \<open>fl\<close> keeps rounding to
  53 bits there.
\<close>

type_synonym double = rat

definition round_half_even :: "rat \<Rightarrow> int" where
  "round_half_even q =
     (let f = \<lfloor>q\<rfloor>; d = q - of_int f
      in if d < 1 / 2 then f else if 1 / 2 < d then f + 1
         else if even f then f else f + 1)"

definition pow2 :: "int \<Rightarrow> rat" where
  "pow2 e = (if 0 \<le> e then 2 ^ nat e else 1 / 2 ^ nat (- e))"

text \<open>\<open>ilog2 q\<close> is the binary exponent of \<open>q \<noteq> 0\<close>: the \<open>e\<close> with \<open>2 ^ e \<le> \<bar>q\<bar> < 2 ^ (e + 1)\<close>.\<close>

definition ilog2 :: "rat \<Rightarrow> int" where
  "ilog2 q =
     (let (a, b) = quotient_of \<bar>q\<bar>; k = bitlen a - bitlen b
      in if pow2 k \<le> \<bar>q\<bar> then k else k - 1)"

definition fl :: "rat \<Rightarrow> double" where
  "fl q =
     (if q = 0 then 0
      else let u = pow2 (max (ilog2 q) (- 1022) - 52)
           in of_int (round_half_even (q / u)) * u)"


definition fsub :: "double \<Rightarrow> double \<Rightarrow> double" where
  "fsub a b = fl (a - b)"

definition fmul :: "double \<Rightarrow> double \<Rightarrow> double" where
  "fmul a b = fl (a * b)"

definition fdiv :: "double \<Rightarrow> double \<Rightarrow> double" where
  "fdiv a b = fl (a / b)"

text \<open>An \<^verbatim>\<open>int\<close> operand of a float operation is first converted to the nearest float.\<close>

definition float_of_int :: "int \<Rightarrow> double" where
  "float_of_int n = fl (of_int n)"


text \<open>
  \<^verbatim>\<open>round(x, 2)\<close> on a float: the exact value of \<open>x\<close> is rounded to two decimals, ties to
  even, and the decimal is converted back to the nearest float.
\<close>

definition py_round2 :: "double \<Rightarrow> double" where
  "py_round2 x = fl (of_int (round_half_even (x * 100)) / 100)"



subsection \<open>Strings\<close>

text \<open>
  A character is its code point, below 256. \<^verbatim>\<open>str.lower\<close> moves the capital letters
  \<^verbatim>\<open>A\<close>..\<^verbatim>\<open>Z\<close> and the capital letters of the Latin-1 block to their small forms and keeps
  every other character.
\<close>

definition lower_char :: "char \<Rightarrow> char" where
  "lower_char c =
     (let n = (of_char c :: nat)
      in if (65 \<le> n \<and> n \<le> 90) \<or> (192 \<le> n \<and> n \<le> 222 \<and> n \<noteq> 215)
         then char_of (n + 32) else c)"

definition lower :: "string \<Rightarrow> string" where
  "lower s = map lower_char s"

section \<open>Data structures\<close>

type_synonym datetime = nat

record product =
  name :: string
  brand :: string
  category :: string
  price :: double
  stock :: int
  warranty_months :: int
  initial_stock :: int

text \<open>
  A sale record of the script has a key \<^verbatim>\<open>brand\<close> too; the field is \<open>sale_brand\<close> here,
  since the two records share one name space.
\<close>

record sale =
  sale_id :: int
  client :: string
  client_type :: string
  product_id :: int
  product_name :: string
  sale_brand :: string
  quantity :: int
  unit_price :: double
  discount_pct :: double
  date :: datetime
  gross :: double
  net :: double

text \<open>
  The module's globals. A Python \<^verbatim>\<open>dict\<close> keeps its keys in insertion order, and the
  reports iterate in that order, so \<open>inventory\<close> is an association list: \<open>AList.update\<close>
  replaces the value of a key in place and appends a new key at the end, as an
  assignment \<^verbatim>\<open>inventory[k] = v\<close> does.
\<close>

record ledger =
  inventory :: "(int \<times> product) list"
  sales :: "sale list"
  next_product_id :: int
  next_sale_id :: int

definition initial_ledger :: ledger where
  "initial_ledger =
     \<lparr>inventory =
        [(1, \<lparr>name = ''Aurora Headphones'', brand = ''Soundix'', category = ''Audio'',
              price = fl (7999 / 100), stock = 25, warranty_months = 12, initial_stock = 25\<rparr>),
         (2, \<lparr>name = ''Volt Charger 65W'', brand = ''Ampere'', category = ''Power'',
              price = fl (3950 / 100), stock = 40, warranty_months = 24, initial_stock = 40\<rparr>),
         (3, \<lparr>name = ''Nexus 10 Tablet'', brand = ''NovaTech'', category = ''Computers'',
              price = fl 249, stock = 10, warranty_months = 12, initial_stock = 10\<rparr>),
         (4, \<lparr>name = ''PixelCam 4K'', brand = ''OptiSight'', category = ''Cameras'',
              price = fl 499, stock = 6, warranty_months = 24, initial_stock = 6\<rparr>),
         (5, \<lparr>name = ''HomeSyx SmartPlug'', brand = ''HomeSyx'', category = ''SmartHome'',
              price = fl (1999 / 100), stock = 60, warranty_months = 6, initial_stock = 60\<rparr>)],
      sales = [],
      next_product_id = 6,
      next_sale_id = 1\<rparr>"

text \<open>
  Each way an operation can end without doing its work, named after the message printed.
  \<open>OutOfRange\<close> and \<open>ProductIdNotFound\<close> are the entries that \<^verbatim>\<open>safe_int\<close>,
  \<^verbatim>\<open>safe_float\<close> and \<^verbatim>\<open>choose_product_id\<close> refuse before asking again.
\<close>

datatype error =
    OutOfRange
  | ProductIdNotFound
  | ProductNameEmpty
  | BrandEmpty
  | ClientNameRequired
  | InsufficientStock
  | Conflict
  | DeletionCancelled
  | NoSalesToReport
  | NoInventory

section \<open>Input validation\<close>

text \<open>
  The prompts hand the operations what the user typed, already stripped of surrounding
  white space and, for numbers, already parsed. \<^verbatim>\<open>safe_int\<close> and \<^verbatim>\<open>safe_float\<close> check a
  number against the optional bounds; \<^verbatim>\<open>choose_product_id\<close> checks that the id is a key
  of the inventory. The script prints a message and asks again on a refused entry;
  here the refusal is the error value, and the operation that asked ends with it, the
  ledger untouched. An interrupt from the keyboard while a prompt waits, which cancels
  the operation before it has changed anything, is not modelled.
\<close>

definition safe_int :: "int option \<Rightarrow> int option \<Rightarrow> int \<Rightarrow> error + int" where
  "safe_int min_val max_val n =
     (if min_val \<noteq> None \<and> n < the min_val then Inl OutOfRange
      else if max_val \<noteq> None \<and> the max_val < n then Inl OutOfRange
      else Inr n)"

definition safe_float :: "double option \<Rightarrow> double option \<Rightarrow> double \<Rightarrow> error + double" where
  "safe_float min_val max_val f =
     (if min_val \<noteq> None \<and> f < the min_val then Inl OutOfRange
      else if max_val \<noteq> None \<and> the max_val < f then Inl OutOfRange
      else Inr f)"

definition choose_product_id :: "ledger \<Rightarrow> int \<Rightarrow> error + int" where
  "choose_product_id st prod_id =
     (if prod_id \<in> fst ` set (inventory st) then Inr prod_id else Inl ProductIdNotFound)"

text \<open>
  A numeric field of \<^verbatim>\<open>update_product\<close> is typed as text and parsed inside the
  operation: the entry is blank, or text that \<^verbatim>\<open>int\<close> or \<^verbatim>\<open>float\<close> rejects with
  \<^verbatim>\<open>ValueError\<close>, or a number.
\<close>

datatype 'a entry = Blank | Unparsable | Entered 'a

section \<open>Inventory CRUD\<close>

definition register_product ::
  "string \<Rightarrow> string \<Rightarrow> string \<Rightarrow> double \<Rightarrow> int \<Rightarrow> int \<Rightarrow> ledger \<Rightarrow> (error + int) \<times> ledger"
where
  "register_product name_in brand_in category_in price_in stock_in warranty_in st =
     (if name_in = [] then (Inl ProductNameEmpty, st)
      else if brand_in = [] then (Inl BrandEmpty, st)
      else
        let category' = (if category_in = [] then ''General'' else category_in) in
        case safe_float (Some 0) None price_in of
          Inl e \<Rightarrow> (Inl e, st)
        | Inr price' \<Rightarrow>
           (case safe_int (Some 0) None stock_in of
              Inl e \<Rightarrow> (Inl e, st)
            | Inr stock' \<Rightarrow>
               (case safe_int (Some 0) None warranty_in of
                  Inl e \<Rightarrow> (Inl e, st)
                | Inr warranty \<Rightarrow>
                   (Inr (next_product_id st),
                    st\<lparr>inventory :=
                         AList.update (next_product_id st)
                           \<lparr>name = name_in, brand = brand_in, category = category',
                            price = py_round2 price', stock = stock',
                            warranty_months = warranty, initial_stock = stock'\<rparr>
                           (inventory st),
                       next_product_id := next_product_id st + 1\<rparr>))))"

text \<open>The six assignments of \<^verbatim>\<open>update_product\<close>, in the order of the script.\<close>

definition update_fields ::
  "string \<Rightarrow> string \<Rightarrow> string \<Rightarrow> double entry \<Rightarrow> int entry \<Rightarrow> int entry \<Rightarrow> product \<Rightarrow> product"
where
  "update_fields name_in brand_in category_in price_input stock_input warranty_input p =
     (let p1 = (if name_in \<noteq> [] then p\<lparr>name := name_in\<rparr> else p);
          p2 = (if brand_in \<noteq> [] then p1\<lparr>brand := brand_in\<rparr> else p1);
          p3 = (if category_in \<noteq> [] then p2\<lparr>category := category_in\<rparr> else p2);
          p4 = (case price_input of
                  Entered price' \<Rightarrow> if price' < 0 then p3 else p3\<lparr>price := py_round2 price'\<rparr>
                | _ \<Rightarrow> p3);
          p5 = (case stock_input of
                  Entered stock' \<Rightarrow> if stock' < 0 then p4 else p4\<lparr>stock := stock'\<rparr>
                | _ \<Rightarrow> p4);
          p6 = (case warranty_input of
                  Entered w \<Rightarrow> if w < 0 then p5 else p5\<lparr>warranty_months := w\<rparr>
                | _ \<Rightarrow> p5)
      in p6)"

definition update_product ::
  "int \<Rightarrow> string \<Rightarrow> string \<Rightarrow> string \<Rightarrow> double entry \<Rightarrow> int entry \<Rightarrow> int entry \<Rightarrow> ledger
     \<Rightarrow> (error + unit) \<times> ledger"
where
  "update_product pid_in name_in brand_in category_in price_input stock_input warranty_input st =
     (case choose_product_id st pid_in of
        Inl e \<Rightarrow> (Inl e, st)
      | Inr pid \<Rightarrow>
         (case map_of (inventory st) pid of
            None \<Rightarrow> (Inl ProductIdNotFound, st)
          | Some p \<Rightarrow>
             (Inr (),
              st\<lparr>inventory :=
                   AList.update pid
                     (update_fields name_in brand_in category_in price_input stock_input
                        warranty_input p)
                     (inventory st)\<rparr>)))"

text \<open>\<open>confirm\<close> is the answer to the confirmation prompt, stripped.\<close>

definition delete_product :: "int \<Rightarrow> string \<Rightarrow> ledger \<Rightarrow> (error + unit) \<times> ledger" where
  "delete_product pid_in confirm st =
     (case choose_product_id st pid_in of
        Inl e \<Rightarrow> (Inl e, st)
      | Inr pid \<Rightarrow>
         if lower confirm = ''y'' then
           let referenced = (\<exists>s \<in> set (sales st). product_id s = pid)
           in if referenced then (Inl Conflict, st)
              else (Inr (), st\<lparr>inventory := AList.delete pid (inventory st)\<rparr>)
         else (Inl DeletionCancelled, st))"

section \<open>Sales\<close>

definition calculate_discount_pct :: "string \<Rightarrow> double" where
  "calculate_discount_pct client_type_in =
     (let client_type' = lower client_type_in
      in if client_type' = ''vip'' then 10
         else if client_type' = ''employee'' then 30
         else if client_type' = ''wholesale'' then 15
         else 0)"

definition revenue_calc :: "double \<Rightarrow> int \<Rightarrow> double" where
  "revenue_calc unit_price' qty = py_round2 (fmul unit_price' (float_of_int qty))"

definition register_sale ::
  "string \<Rightarrow> string \<Rightarrow> int \<Rightarrow> int \<Rightarrow> datetime \<Rightarrow> ledger \<Rightarrow> (error + sale) \<times> ledger"
where
  "register_sale client_in client_type_in pid_in qty_in now st =
     (if client_in = [] then (Inl ClientNameRequired, st)
      else
        let client_type' = (if lower client_type_in = [] then ''regular''
                            else lower client_type_in) in
        case choose_product_id st pid_in of
          Inl e \<Rightarrow> (Inl e, st)
        | Inr pid \<Rightarrow>
           (case map_of (inventory st) pid of
              None \<Rightarrow> (Inl ProductIdNotFound, st)
            | Some p \<Rightarrow>
               (case safe_int (Some 1) None qty_in of
                  Inl e \<Rightarrow> (Inl e, st)
                | Inr qty \<Rightarrow>
                   if stock p < qty then (Inl InsufficientStock, st)
                   else
                     let discount_pct' = calculate_discount_pct client_type';
                         unit_price' = price p;
                         gross' = revenue_calc unit_price' qty;
                         discount_amount = py_round2 (fmul gross' (fdiv discount_pct' 100));
                         net' = py_round2 (fsub gross' discount_amount);
                         sale' = \<lparr>sale_id = next_sale_id st, client = client_in,
                                  client_type = client_type', product_id = pid,
                                  product_name = name p, sale_brand = brand p,
                                  quantity = qty, unit_price = unit_price',
                                  discount_pct = discount_pct', date = now,
                                  gross = gross', net = net'\<rparr>
                     in (Inr sale',
                         st\<lparr>inventory := AList.update pid (p\<lparr>stock := stock p - qty\<rparr>) (inventory st),
                            sales := sales st @ [sale'],
                            next_sale_id := next_sale_id st + 1\<rparr>))))"

section \<open>Reports\<close>

text \<open>
  \<^verbatim>\<open>sold[s['product_id']] += s['quantity']\<close> on a \<^verbatim>\<open>defaultdict(int)\<close>: a product id seen
  for the first time enters the dictionary at the end, with 0 as its old value.
\<close>

definition add_sold :: "(int \<times> int) list \<Rightarrow> sale \<Rightarrow> (int \<times> int) list" where
  "add_sold sold s =
     AList.update (product_id s)
       ((case map_of sold (product_id s) of None \<Rightarrow> 0 | Some q \<Rightarrow> q) + quantity s) sold"

definition sold_per_product :: "sale list \<Rightarrow> (int \<times> int) list" where
  "sold_per_product ss = foldl add_sold [] ss"

text \<open>
  \<^verbatim>\<open>sorted(items, key=k, reverse=True)\<close> is a stable sort in descending order of the
  key: items with equal keys keep their order. Sorting on the negated key with the
  stable \<open>sort_key\<close> gives that list.
\<close>

definition sorted_reverse :: "('a \<Rightarrow> int) \<Rightarrow> 'a list \<Rightarrow> 'a list" where
  "sorted_reverse k xs = sort_key (\<lambda>x. - k x) xs"

text \<open>The slice \<^verbatim>\<open>xs[:n]\<close>; a negative \<open>n\<close> counts from the end.\<close>

definition slice_to :: "int \<Rightarrow> 'a list \<Rightarrow> 'a list" where
  "slice_to n xs = (if 0 \<le> n then take (nat n) xs else take (length xs - nat (- n)) xs)"

text \<open>A line of the top-\<open>n\<close> report: rank, product name, product id, units sold.\<close>

type_synonym top_line = "int \<times> string \<times> int \<times> int"

definition top_line_of :: "ledger \<Rightarrow> nat \<times> (int \<times> int) \<Rightarrow> top_line" where
  "top_line_of st e =
     (case e of (i, (pid, qty)) \<Rightarrow>
        (int i + 1,
         (case map_of (inventory st) pid of None \<Rightarrow> ''Deleted product'' | Some p \<Rightarrow> name p),
         pid, qty))"

definition top_n_products :: "int \<Rightarrow> ledger \<Rightarrow> error + top_line list" where
  "top_n_products n st =
     (let sold = sold_per_product (sales st)
      in if sold = [] then Inl NoSalesToReport
         else
           let sorted_sold = sorted_reverse snd sold
           in Inr (map (top_line_of st) (List.enumerate 0 (slice_to n sorted_sold))))"







section \<open>Demo sales and the main menu\<close>

text \<open>The demo entries: client, client type, product id, quantity.\<close>

definition demo :: "(string \<times> string \<times> int \<times> int) list" where
  "demo =
     [(''Alice'', ''vip'', 1, 3),
      (''Bob'', ''regular'', 2, 5),
      (''Charlie Co.'', ''wholesale'', 5, 20),
      (''Diana'', ''employee'', 3, 1),
      (''Eve'', ''regular'', 4, 2)]"

text \<open>
  One round of the loop of \<^verbatim>\<open>preload_demo_sales\<close>. \<open>clock i\<close> is the time read when the
  sale with id \<open>i\<close> is recorded.
\<close>

definition preload_step ::
  "(int \<Rightarrow> datetime) \<Rightarrow> ledger \<Rightarrow> string \<times> string \<times> int \<times> int \<Rightarrow> ledger"
where
  "preload_step clock st d =
     (case d of (d_client, d_client_type, pid, d_quantity) \<Rightarrow>
        (case map_of (inventory st) pid of
           None \<Rightarrow> st
         | Some p \<Rightarrow>
            let qty = min d_quantity (stock p)
            in if qty \<le> 0 then st
               else
                 let discount_pct' = calculate_discount_pct d_client_type;
                     gross' = revenue_calc (price p) qty;
                     net' = py_round2 (fmul gross' (fsub (float_of_int 1) (fdiv discount_pct' 100)));
                     sale' = \<lparr>sale_id = next_sale_id st, client = d_client,
                              client_type = d_client_type, product_id = pid,
                              product_name = name p, sale_brand = brand p,
                              quantity = qty, unit_price = price p,
                              discount_pct = discount_pct', date = clock (next_sale_id st),
                              gross = gross', net = net'\<rparr>
                 in st\<lparr>inventory := AList.update pid (p\<lparr>stock := stock p - qty\<rparr>) (inventory st),
                       sales := sales st @ [sale'],
                       next_sale_id := next_sale_id st + 1\<rparr>))"

definition preload_demo_sales :: "(int \<Rightarrow> datetime) \<Rightarrow> ledger \<Rightarrow> ledger" where
  "preload_demo_sales clock st = foldl (preload_step clock) st demo"

text \<open>
  The operations that change the ledger, with what the user enters for each. The main
  menu runs \<^verbatim>\<open>preload_demo_sales\<close> once on the initial ledger and then the operations the
  user chooses, one after the other; an operation that ends with an error leaves the
  ledger as it was.
\<close>

datatype operation =
    RegisterProduct string string string double int int
  | UpdateProduct int string string string "double entry" "int entry" "int entry"
  | DeleteProduct int string
  | RegisterSale string string int int datetime
  | PreloadDemoSales "int \<Rightarrow> datetime"

fun perform :: "ledger \<Rightarrow> operation \<Rightarrow> ledger" where
  "perform st (RegisterProduct n b c p s w) = snd (register_product n b c p s w st)"
| "perform st (UpdateProduct pid n b c p s w) = snd (update_product pid n b c p s w st)"
| "perform st (DeleteProduct pid confirm) = snd (delete_product pid confirm st)"
| "perform st (RegisterSale cl ct pid qty now) = snd (register_sale cl ct pid qty now st)"
| "perform st (PreloadDemoSales clock) = preload_demo_sales clock st"

definition main_menu :: "(int \<Rightarrow> datetime) \<Rightarrow> operation list \<Rightarrow> ledger" where
  "main_menu clock ops = foldl perform (preload_demo_sales clock initial_ledger) ops"

section \<open>Notions used to state the properties\<close>

text \<open>
  \<open>casing_of w s\<close>: the string \<open>s\<close> is the word \<open>w\<close>, given in small ASCII letters,
  with each letter written small or capital.
\<close>

definition capital :: "char \<Rightarrow> char" where
  "capital d = char_of (of_char d - (32::nat))"

definition small_letter :: "char \<Rightarrow> bool" where
  "small_letter d = (97 \<le> (of_char d :: nat) \<and> (of_char d :: nat) \<le> 122)"

fun casing_of :: "string \<Rightarrow> string \<Rightarrow> bool" where
  "casing_of [] [] = True"
| "casing_of (d # ds) (c # cs) = ((c = d \<or> c = capital d) \<and> casing_of ds cs)"
| "casing_of _ _ = False"



text \<open>
  The units of a product sold so far, summed over the sales log, and the distinct items
  of a list in the order of their first occurrence.
\<close>

definition units_sold :: "int \<Rightarrow> sale list \<Rightarrow> int" where
  "units_sold pid ss = sum_list (map quantity (filter (\<lambda>s. product_id s = pid) ss))"

definition first_seen :: "'a list \<Rightarrow> 'a list" where
  "first_seen xs = rev (remdups (rev xs))"

text \<open>No product of the inventory has a negative stock.\<close>

definition stocks_nonneg :: "ledger \<Rightarrow> bool" where
  "stocks_nonneg st \<longleftrightarrow> (\<forall>(pid, p) \<in> set (inventory st). 0 \<le> stock p)"

text \<open>
  What the top-\<open>n\<close> report ranks: each product id of the sales log with the sum of the
  quantities sold, in the order in which the ids first entered the log.
\<close>

definition totals_per_product :: "sale list \<Rightarrow> (int \<times> int) list" where
  "totals_per_product ss = map (\<lambda>pid. (pid, units_sold pid ss)) (first_seen (map product_id ss))"

section \<open>Discount by client type\<close>

lemma lower_char_eq_small:
  assumes "small_letter d"
  shows "lower_char c = d \<longleftrightarrow> c = d \<or> c = capital d"
proof -
  let ?n = "of_char c :: nat" and ?m = "of_char d :: nat"
  have n: "?n < 256" by (cases c) simp
  have m: "97 \<le> ?m" "?m \<le> 122"
    using assms by (simp_all add: small_letter_def)
  have eq: "c = d \<longleftrightarrow> ?n = ?m" by simp
  have capd: "of_char (capital d) = ?m - 32"
    using m by (simp add: capital_def)
  have cap: "c = capital d \<longleftrightarrow> ?n = ?m - 32"
    using capd by (metis of_char_eq_iff)
  show ?thesis
  proof (cases "(65 \<le> ?n \<and> ?n \<le> 90) \<or> (192 \<le> ?n \<and> ?n \<le> 222 \<and> ?n \<noteq> 215)")
    case True
    then have l: "lower_char c = char_of (?n + 32)" by (simp add: lower_char_def Let_def)
    have "of_char (lower_char c) = ?n + 32"
      using True n unfolding l by (auto simp add: of_char_of)
    then have "lower_char c = d \<longleftrightarrow> ?n + 32 = ?m" by (metis of_char_eq_iff)
    then show ?thesis using True m eq cap by auto
  next
    case False
    then have l: "lower_char c = c" unfolding lower_char_def Let_def by (rule if_not_P)
    show ?thesis using False m eq cap unfolding l by auto
  qed
qed

lemma lower_eq_casing:
  "list_all small_letter w \<Longrightarrow> lower s = w \<longleftrightarrow> casing_of w s"
proof (induction w arbitrary: s)
  case Nil
  then show ?case by (cases s) (simp_all add: lower_def)
next
  case (Cons d ds)
  note ih = Cons.IH and small = Cons.prems
  show ?case
  proof (cases s)
    case Nil
    then show ?thesis by (simp add: lower_def)
  next
    case (Cons c cs)
    have "lower cs = ds \<longleftrightarrow> casing_of ds cs" using ih small by simp
    moreover have "lower_char c = d \<longleftrightarrow> c = d \<or> c = capital d"
      using small by (intro lower_char_eq_small) simp
    ultimately show ?thesis using Cons by (auto simp add: lower_def)
  qed
qed

text \<open>
  C6. \<^verbatim>\<open>calculate_discount_pct\<close> is a function of the client type alone, defined on every
  string, and it ignores case: any casing of \<^verbatim>\<open>vip\<close> gives 10, of \<^verbatim>\<open>employee\<close> 30, of
  \<^verbatim>\<open>wholesale\<close> 15, and every other string (\<^verbatim>\<open>regular\<close>, or a type the script does not
  know) gives 0.
\<close>

theorem discount_case_insensitive:
  "(casing_of ''vip'' s \<longrightarrow> calculate_discount_pct s = 10)
   \<and> (casing_of ''employee'' s \<longrightarrow> calculate_discount_pct s = 30)
   \<and> (casing_of ''wholesale'' s \<longrightarrow> calculate_discount_pct s = 15)
   \<and> (\<not> casing_of ''vip'' s \<and> \<not> casing_of ''employee'' s \<and> \<not> casing_of ''wholesale'' s
        \<longrightarrow> calculate_discount_pct s = 0)"
proof -
  have v: "lower s = ''vip'' \<longleftrightarrow> casing_of ''vip'' s"
    by (rule lower_eq_casing) (simp add: small_letter_def)
  have e: "lower s = ''employee'' \<longleftrightarrow> casing_of ''employee'' s"
    by (rule lower_eq_casing) (simp add: small_letter_def)
  have w: "lower s = ''wholesale'' \<longleftrightarrow> casing_of ''wholesale'' s"
    by (rule lower_eq_casing) (simp add: small_letter_def)
  have x: "lower s = ''vip'' \<Longrightarrow> lower s \<noteq> ''employee'' \<and> lower s \<noteq> ''wholesale''"
    "lower s = ''employee'' \<Longrightarrow> lower s \<noteq> ''wholesale''"
    by simp_all
  show ?thesis
    unfolding v [symmetric] e [symmetric] w [symmetric] calculate_discount_pct_def Let_def
    using x by auto
qed

text \<open>The theorem at five client types: three casings of the known ones and two others.\<close>

theorem discount_case_insensitive_witness:
  "calculate_discount_pct ''ViP'' = 10 \<and> calculate_discount_pct ''EMPLOYEE'' = 30
   \<and> calculate_discount_pct ''wholeSale'' = 15 \<and> calculate_discount_pct ''regular'' = 0
   \<and> calculate_discount_pct ''student'' = 0"
  using discount_case_insensitive [of "''ViP''"] discount_case_insensitive [of "''EMPLOYEE''"]
    discount_case_insensitive [of "''wholeSale''"] discount_case_insensitive [of "''regular''"]
    discount_case_insensitive [of "''student''"]
  by (simp add: capital_def char_of_def bit_0)

section \<open>Registering a sale\<close>




section \<open>Amounts of a sale\<close>







section \<open>Units sold per product\<close>

lemma first_seen_snoc:
  "first_seen (xs @ [x]) = (if x \<in> set xs then first_seen xs else first_seen xs @ [x])"
  by (simp add: first_seen_def)

lemma set_first_seen [simp]: "set (first_seen xs) = set xs"
  by (simp add: first_seen_def)

lemma distinct_first_seen [simp]: "distinct (first_seen xs)"
  by (simp add: first_seen_def)

lemma update_tabulated:
  "AList.update k v (map (\<lambda>x. (x, g x)) xs)
     = map (\<lambda>x. (x, (g(k := v)) x)) (if k \<in> set xs then xs else xs @ [k])"
  if "distinct xs"
  using that by (induction xs) auto

lemma map_of_tabulated:
  "map_of (map (\<lambda>x. (x, g x)) xs) k = (if k \<in> set xs then Some (g k) else None)"
  by (induction xs) auto

lemma units_sold_snoc:
  "units_sold k (ss @ [s]) = units_sold k ss + (if product_id s = k then quantity s else 0)"
  by (simp add: units_sold_def)

lemma units_sold_absent:
  "k \<notin> product_id ` set ss \<Longrightarrow> units_sold k ss = 0"
  by (induction ss) (auto simp add: units_sold_def)

lemma sold_per_product_eq:
  "sold_per_product ss = map (\<lambda>pid. (pid, units_sold pid ss)) (first_seen (map product_id ss))"
proof (induction ss rule: rev_induct)
  case Nil
  then show ?case by (simp add: sold_per_product_def first_seen_def)
next
  case (snoc s ss)
  let ?k = "product_id s" and ?F = "first_seen (map product_id ss)"
  have old: "(case map_of (sold_per_product ss) ?k of None \<Rightarrow> 0 | Some q \<Rightarrow> q) = units_sold ?k ss"
    unfolding snoc.IH map_of_tabulated by (simp add: units_sold_absent)
  have "sold_per_product (ss @ [s]) = add_sold (sold_per_product ss) s"
    by (simp add: sold_per_product_def)
  also have "\<dots> = AList.update ?k (units_sold ?k ss + quantity s)
                     (map (\<lambda>pid. (pid, units_sold pid ss)) ?F)"
    unfolding add_sold_def old by (simp only: snoc.IH)
  also have "\<dots> = map (\<lambda>x. (x, ((\<lambda>pid. units_sold pid ss)(?k := units_sold ?k ss + quantity s)) x))
                     (if ?k \<in> set ?F then ?F else ?F @ [?k])"
    by (rule update_tabulated) simp
  also have "\<dots> = map (\<lambda>pid. (pid, units_sold pid (ss @ [s]))) (first_seen (map product_id (ss @ [s])))"
    by (auto simp add: first_seen_snoc units_sold_snoc)
  finally show ?case .
qed






section \<open>Inventory performance\<close>




section \<open>Stock is never negative\<close>

lemma set_update_cases:
  "e \<in> set (AList.update k v al) \<Longrightarrow> e = (k, v) \<or> e \<in> set al"
  by (induction al) (auto split: if_splits)

lemma set_delete_subset: "set (AList.delete k al) \<subseteq> set al"
  by (auto simp add: AList.delete_eq)

lemma stocks_nonneg_update:
  "stocks_nonneg st \<Longrightarrow> 0 \<le> stock p
     \<Longrightarrow> stocks_nonneg (st\<lparr>inventory := AList.update k p (inventory st)\<rparr>)"
  unfolding stocks_nonneg_def by (auto dest: set_update_cases)

lemma register_product_nonneg:
  "stocks_nonneg st \<Longrightarrow> stocks_nonneg (snd (register_product n b c pr sk w st))"
  unfolding register_product_def Let_def safe_int_def safe_float_def
  by (auto simp add: stocks_nonneg_def dest!: set_update_cases split: if_splits)

lemma update_fields_nonneg:
  "0 \<le> stock p \<Longrightarrow> 0 \<le> stock (update_fields n b c pr sk w p)"
  unfolding update_fields_def Let_def by (auto split: entry.splits)

lemma update_product_nonneg:
  assumes inv: "stocks_nonneg st"
  shows "stocks_nonneg (snd (update_product pid n b c pr sk w st))"
proof (cases "map_of (inventory st) pid")
  case None
  then show ?thesis
    using inv by (auto simp add: update_product_def choose_product_id_def split: sum.splits)
next
  case (Some p)
  have "(pid, p) \<in> set (inventory st)" using Some by (rule map_of_SomeD)
  then have "0 \<le> stock p" using inv by (auto simp add: stocks_nonneg_def)
  then have "stocks_nonneg (st\<lparr>inventory :=
      AList.update pid (update_fields n b c pr sk w p) (inventory st)\<rparr>)"
    using inv by (intro stocks_nonneg_update update_fields_nonneg)
  then show ?thesis
    using Some inv by (auto simp add: update_product_def choose_product_id_def)
qed

lemma delete_product_nonneg:
  "stocks_nonneg st \<Longrightarrow> stocks_nonneg (snd (delete_product pid confirm st))"
  using set_delete_subset [of pid "inventory st"]
  by (auto simp add: delete_product_def choose_product_id_def stocks_nonneg_def Let_def)

lemma register_sale_nonneg:
  "stocks_nonneg st \<Longrightarrow> stocks_nonneg (snd (register_sale cl ct pid q now st))"
  unfolding register_sale_def Let_def safe_int_def choose_product_id_def
  by (auto simp add: stocks_nonneg_def dest!: set_update_cases split: if_splits option.splits)

lemma preload_step_nonneg:
  "stocks_nonneg st \<Longrightarrow> stocks_nonneg (preload_step clock st d)"
  unfolding preload_step_def Let_def
  by (auto simp add: stocks_nonneg_def dest!: set_update_cases
      split: if_splits option.splits prod.splits)

lemma preload_loop_nonneg:
  "stocks_nonneg st \<Longrightarrow> stocks_nonneg (foldl (preload_step clock) st ds)"
  by (induction ds arbitrary: st) (simp_all add: preload_step_nonneg)

lemma perform_nonneg: "stocks_nonneg st \<Longrightarrow> stocks_nonneg (perform st op)"
  by (cases op)
    (simp_all add: register_product_nonneg update_product_nonneg delete_product_nonneg
      register_sale_nonneg preload_loop_nonneg preload_demo_sales_def)

lemma perform_all_nonneg: "stocks_nonneg st \<Longrightarrow> stocks_nonneg (foldl perform st ops)"
  by (induction ops arbitrary: st) (simp_all add: perform_nonneg)

lemma initial_nonneg: "stocks_nonneg initial_ledger"
  by (simp add: stocks_nonneg_def initial_ledger_def)

text \<open>
  C4. Whatever operations are performed, in whatever order and with whatever entries
  (registering a product, updating a product, deleting a product, registering a sale,
  preloading the demo sales), starting from the initial ledger or from the main menu's
  start after the preload, the stock of every product of the inventory is an integer
  that is not negative.
\<close>

theorem stock_never_negative:
  "(\<forall>(pid, p) \<in> set (inventory (foldl perform initial_ledger ops)). 0 \<le> stock p)
   \<and> (\<forall>(pid, p) \<in> set (inventory (main_menu clock ops)). 0 \<le> stock p)"
proof
  show "\<forall>(pid, p) \<in> set (inventory (foldl perform initial_ledger ops)). 0 \<le> stock p"
    using perform_all_nonneg [OF initial_nonneg] by (simp add: stocks_nonneg_def)
next
  have "stocks_nonneg (preload_demo_sales clock initial_ledger)"
    unfolding preload_demo_sales_def by (rule preload_loop_nonneg [OF initial_nonneg])
  then show "\<forall>(pid, p) \<in> set (inventory (main_menu clock ops)). 0 \<le> stock p"
    unfolding main_menu_def using perform_all_nonneg by (simp add: stocks_nonneg_def)
qed

text \<open>
  The theorem after two updates of product 4, the first setting its stock to 0, the
  second asking for a stock of -3, which is refused.
\<close>

theorem stock_never_negative_witness:
  "(4, \<lparr>name = ''PixelCam 4K'', brand = ''OptiSight'', category = ''Cameras'',
        price = fl 499, stock = 0, warranty_months = 24, initial_stock = 6\<rparr>)
     \<in> set (inventory (foldl perform initial_ledger
          [UpdateProduct 4 '''' '''' '''' Blank (Entered 0) Blank,
           UpdateProduct 4 '''' '''' '''' Blank (Entered (- 3)) Blank]))
   \<and> 0 \<le> stock \<lparr>name = ''PixelCam 4K'', brand = ''OptiSight'', category = ''Cameras'',
        price = fl 499, stock = 0, warranty_months = 24, initial_stock = 6\<rparr>"
proof -
  have m: "(4, \<lparr>name = ''PixelCam 4K'', brand = ''OptiSight'', category = ''Cameras'',
        price = fl 499, stock = 0, warranty_months = 24, initial_stock = 6\<rparr>)
     \<in> set (inventory (foldl perform initial_ledger
          [UpdateProduct 4 '''' '''' '''' Blank (Entered 0) Blank,
           UpdateProduct 4 '''' '''' '''' Blank (Entered (- 3)) Blank]))"
    by (simp add: initial_ledger_def update_product_def choose_product_id_def
        update_fields_def Let_def)
  show ?thesis
    using m stock_never_negative [of "[UpdateProduct 4 '''' '''' '''' Blank (Entered 0) Blank,
           UpdateProduct 4 '''' '''' '''' Blank (Entered (- 3)) Blank]" nat]
    by blast
qed

section \<open>The state after the demo sales\<close>

lemma preload_step_literal:
  "preload_step clock \<lparr>inventory = iv, sales = ss, next_product_id = np, next_sale_id = ns\<rparr>
     (cl, ct, pid, dq)
   = (case map_of iv pid of
        None \<Rightarrow> \<lparr>inventory = iv, sales = ss, next_product_id = np, next_sale_id = ns\<rparr>
      | Some p \<Rightarrow>
         if min dq (stock p) \<le> 0
         then \<lparr>inventory = iv, sales = ss, next_product_id = np, next_sale_id = ns\<rparr>
         else \<lparr>inventory = AList.update pid (p\<lparr>stock := stock p - min dq (stock p)\<rparr>) iv,
               sales = ss @
                 [\<lparr>sale_id = ns, client = cl, client_type = ct, product_id = pid,
                   product_name = name p, sale_brand = brand p,
                   quantity = min dq (stock p), unit_price = price p,
                   discount_pct = calculate_discount_pct ct, date = clock ns,
                   gross = revenue_calc (price p) (min dq (stock p)),
                   net = py_round2 (fmul (revenue_calc (price p) (min dq (stock p)))
                           (fsub (float_of_int 1) (fdiv (calculate_discount_pct ct) 100)))\<rparr>],
               next_product_id = np, next_sale_id = ns + 1\<rparr>)"
  by (simp add: preload_step_def Let_def split: option.splits)

lemma startup_inventory:
  "map (\<lambda>(pid, p). (pid, stock p, initial_stock p)) (inventory (preload_demo_sales clock initial_ledger))
     = [(1, 22, 25), (2, 35, 40), (3, 9, 10), (4, 4, 6), (5, 40, 60)]"
  by (simp add: preload_demo_sales_def demo_def initial_ledger_def preload_step_literal)

lemma startup_sales:
  "map (\<lambda>s. (sale_id s, client s, product_id s, quantity s)) (sales (preload_demo_sales clock initial_ledger))
     = [(1, ''Alice'', 1, 3), (2, ''Bob'', 2, 5), (3, ''Charlie Co.'', 5, 20),
        (4, ''Diana'', 3, 1), (5, ''Eve'', 4, 2)]"
  by (simp add: preload_demo_sales_def demo_def initial_ledger_def preload_step_literal)

section \<open>Deleting a product\<close>

lemma delete_as_filter: "AList.delete k al = filter (\<lambda>e. fst e \<noteq> k) al"
  by (induction al) auto

text \<open>
  C5. A product \<open>pid\<close> of the inventory is deleted and the user confirms with \<^verbatim>\<open>y\<close>. If at
  least one sale of the log refers to \<open>pid\<close>, the operation ends with \<open>Conflict\<close> and the
  ledger is unchanged. If no sale refers to it, the operation succeeds: the product is
  removed from the inventory, every other product stays, and the sales log is unchanged.
\<close>

theorem delete_product_referential:
  assumes "pid \<in> fst ` set (inventory st)" and "lower confirm = ''y''"
  shows "if \<exists>s \<in> set (sales st). product_id s = pid
         then delete_product pid confirm st = (Inl Conflict, st)
         else \<exists>st'. delete_product pid confirm st = (Inr (), st')
                \<and> inventory st' = filter (\<lambda>e. fst e \<noteq> pid) (inventory st)
                \<and> map_of (inventory st') = (map_of (inventory st))(pid := None)
                \<and> sales st' = sales st"
proof -
  have c: "choose_product_id st pid = Inr pid"
    using assms(1) by (simp add: choose_product_id_def)
  show ?thesis
    unfolding delete_product_def c Let_def
    using assms(2) by (simp add: delete_conv' delete_as_filter [symmetric])
qed

lemma lower_Y: "lower ''Y'' = ''y''"
  by (simp add: lower_def lower_char_def char_of_def bit_0)

text \<open>
  The theorem on product 1: after the demo sales a sale refers to it and the deletion is
  refused; on the initial ledger no sale does and the product is removed.
\<close>

theorem delete_product_referential_witness:
  "delete_product 1 ''Y'' (preload_demo_sales nat initial_ledger)
     = (Inl Conflict, preload_demo_sales nat initial_ledger)
   \<and> (\<exists>st'. delete_product 1 ''Y'' initial_ledger = (Inr (), st')
         \<and> map fst (inventory st') = [2, 3, 4, 5] \<and> sales st' = [])"
proof -
  let ?st = "preload_demo_sales nat initial_ledger"
  have "(1, ''Alice'', 1, 3)
      \<in> set (map (\<lambda>s. (sale_id s, client s, product_id s, quantity s)) (sales ?st))"
    unfolding startup_sales by simp
  then have r: "\<exists>s \<in> set (sales ?st). product_id s = 1" by auto
  have "(1, 22, 25) \<in> set (map (\<lambda>(pid, p). (pid, stock p, initial_stock p)) (inventory ?st))"
    unfolding startup_inventory by simp
  then have k: "1 \<in> fst ` set (inventory ?st)" by force
  have k0: "1 \<in> fst ` set (inventory initial_ledger)" by (simp add: initial_ledger_def)
  have a: "delete_product 1 ''Y'' ?st = (Inl Conflict, ?st)"
    using delete_product_referential [OF k lower_Y] r by simp
  have b: "\<exists>st'. delete_product 1 ''Y'' initial_ledger = (Inr (), st')
         \<and> map fst (inventory st') = [2, 3, 4, 5] \<and> sales st' = []"
    using delete_product_referential [OF k0 lower_Y] by (auto simp add: initial_ledger_def)
  show ?thesis using a b by blast
qed

section \<open>Updating a product\<close>



section \<open>Demo sales at startup\<close>

lemma preload_step_length:
  "length (sales (preload_step clock st d)) \<le> length (sales st) + 1"
  by (cases d) (simp add: preload_step_def Let_def split: option.splits)

lemma preload_loop_length:
  "length (sales (foldl (preload_step clock) st ds)) \<le> length (sales st) + length ds"
proof (induction ds arbitrary: st)
  case Nil
  then show ?case by simp
next
  case (Cons d ds)
  have "length (sales (foldl (preload_step clock) (preload_step clock st d) ds))
      \<le> length (sales (preload_step clock st d)) + length ds"
    by (rule Cons.IH)
  also have "\<dots> \<le> length (sales st) + 1 + length ds"
    using preload_step_length [of clock st d] by simp
  finally show ?case by simp
qed

text \<open>
  C10. When the main menu first appears, before any operation of the user, the sales
  log holds the five demo sales, with the ids 1 to 5 and the clients Alice, Bob,
  Charlie Co., Diana and Eve, and the stocks of the products they refer to are
  decremented: they differ from the seeded stocks, which \<open>initial_stock\<close> still
  shows, and the log is not empty. In any ledger the preload records at most five
  sales; a demo entry whose product is missing is skipped, and so is one whose
  quantity, clamped to the stock of the product (the minimum of the two), is not
  positive; otherwise one sale of the clamped quantity is appended with the next sale
  id and the stock is decremented by that quantity.
\<close>

theorem startup_demo_sales:
  "map (\<lambda>s. (sale_id s, client s, product_id s, quantity s)) (sales (main_menu clock []))
     = [(1, ''Alice'', 1, 3), (2, ''Bob'', 2, 5), (3, ''Charlie Co.'', 5, 20),
        (4, ''Diana'', 3, 1), (5, ''Eve'', 4, 2)]
   \<and> map (\<lambda>(pid, p). (pid, stock p, initial_stock p)) (inventory (main_menu clock []))
     = [(1, 22, 25), (2, 35, 40), (3, 9, 10), (4, 4, 6), (5, 40, 60)]
   \<and> map (\<lambda>(pid, p). (pid, stock p, initial_stock p)) (inventory initial_ledger)
     = [(1, 25, 25), (2, 40, 40), (3, 10, 10), (4, 6, 6), (5, 60, 60)]
   \<and> sales (main_menu clock []) \<noteq> []
   \<and> length (sales (preload_demo_sales clock st)) \<le> length (sales st) + 5
   \<and> (map_of (inventory st) pid = None
        \<longrightarrow> preload_step clock st (cl, ct, pid, dq) = st)
   \<and> (map_of (inventory st) pid = Some p \<and> min dq (stock p) \<le> 0
        \<longrightarrow> preload_step clock st (cl, ct, pid, dq) = st)
   \<and> (map_of (inventory st) pid = Some p \<and> 0 < min dq (stock p)
        \<longrightarrow> (\<exists>s. sales (preload_step clock st (cl, ct, pid, dq)) = sales st @ [s]
                 \<and> sale_id s = next_sale_id st \<and> client s = cl \<and> product_id s = pid
                 \<and> quantity s = min dq (stock p))
            \<and> map_of (inventory (preload_step clock st (cl, ct, pid, dq)))
                = (map_of (inventory st))(pid \<mapsto> p\<lparr>stock := stock p - min dq (stock p)\<rparr>)
            \<and> next_sale_id (preload_step clock st (cl, ct, pid, dq)) = next_sale_id st + 1)"
proof (intro conjI)
  show "map (\<lambda>s. (sale_id s, client s, product_id s, quantity s)) (sales (main_menu clock []))
     = [(1, ''Alice'', 1, 3), (2, ''Bob'', 2, 5), (3, ''Charlie Co.'', 5, 20),
        (4, ''Diana'', 3, 1), (5, ''Eve'', 4, 2)]"
    unfolding main_menu_def foldl_Nil by (rule startup_sales)
  then show "sales (main_menu clock []) \<noteq> []" by auto
  show "map (\<lambda>(pid, p). (pid, stock p, initial_stock p)) (inventory (main_menu clock []))
     = [(1, 22, 25), (2, 35, 40), (3, 9, 10), (4, 4, 6), (5, 40, 60)]"
    unfolding main_menu_def foldl_Nil by (rule startup_inventory)
  show "map (\<lambda>(pid, p). (pid, stock p, initial_stock p)) (inventory initial_ledger)
     = [(1, 25, 25), (2, 40, 40), (3, 10, 10), (4, 6, 6), (5, 60, 60)]"
    by (simp add: initial_ledger_def)
  show "length (sales (preload_demo_sales clock st)) \<le> length (sales st) + 5"
    unfolding preload_demo_sales_def
    using preload_loop_length [of clock st demo] by (simp add: demo_def)
  show "map_of (inventory st) pid = None \<longrightarrow> preload_step clock st (cl, ct, pid, dq) = st"
    by (simp add: preload_step_def)
  show "map_of (inventory st) pid = Some p \<and> min dq (stock p) \<le> 0
        \<longrightarrow> preload_step clock st (cl, ct, pid, dq) = st"
    by (auto simp add: preload_step_def Let_def)
  show "map_of (inventory st) pid = Some p \<and> 0 < min dq (stock p)
        \<longrightarrow> (\<exists>s. sales (preload_step clock st (cl, ct, pid, dq)) = sales st @ [s]
                 \<and> sale_id s = next_sale_id st \<and> client s = cl \<and> product_id s = pid
                 \<and> quantity s = min dq (stock p))
            \<and> map_of (inventory (preload_step clock st (cl, ct, pid, dq)))
                = (map_of (inventory st))(pid \<mapsto> p\<lparr>stock := stock p - min dq (stock p)\<rparr>)
            \<and> next_sale_id (preload_step clock st (cl, ct, pid, dq)) = next_sale_id st + 1"
    by (auto simp add: preload_step_def Let_def update_conv')
qed

text \<open>
  The theorem at three demo entries: a product id 9 that does not exist, product 4
  with its stock set to 0, and product 4 with its stock set to 1, where the 2 units
  asked for are clamped to 1.
\<close>

theorem startup_demo_sales_witness:
  "length (sales (main_menu nat [])) = 5
   \<and> preload_step nat initial_ledger (''Zed'', ''vip'', 9, 1) = initial_ledger
   \<and> preload_step nat
        (snd (update_product 4 '''' '''' '''' Blank (Entered 0) Blank initial_ledger))
        (''Eve'', ''regular'', 4, 2)
       = snd (update_product 4 '''' '''' '''' Blank (Entered 0) Blank initial_ledger)
   \<and> map quantity (sales (preload_step nat
        (snd (update_product 4 '''' '''' '''' Blank (Entered 1) Blank initial_ledger))
        (''Eve'', ''regular'', 4, 2))) = [1]"
proof -
  let ?st0 = "snd (update_product 4 '''' '''' '''' Blank (Entered 0) Blank initial_ledger)"
  let ?st1 = "snd (update_product 4 '''' '''' '''' Blank (Entered 1) Blank initial_ledger)"
  let ?p0 = "\<lparr>name = ''PixelCam 4K'', brand = ''OptiSight'', category = ''Cameras'',
        price = fl 499, stock = 0, warranty_months = 24, initial_stock = 6\<rparr>"
  let ?p1 = "\<lparr>name = ''PixelCam 4K'', brand = ''OptiSight'', category = ''Cameras'',
        price = fl 499, stock = 1, warranty_months = 24, initial_stock = 6\<rparr>"
  have n: "map_of (inventory initial_ledger) 9 = None" by (simp add: initial_ledger_def)
  have m0: "map_of (inventory ?st0) 4 = Some ?p0"
    by (simp add: initial_ledger_def update_product_def choose_product_id_def
        update_fields_def Let_def)
  have m1: "map_of (inventory ?st1) 4 = Some ?p1" and s1: "sales ?st1 = []"
    by (simp_all add: initial_ledger_def update_product_def choose_product_id_def
        update_fields_def Let_def)
  note a = startup_demo_sales [where clock = nat and st = initial_ledger and pid = 9
      and cl = "''Zed''" and ct = "''vip''" and dq = 1 and p = ?p0]
  note b = startup_demo_sales [where clock = nat and st = ?st0 and pid = 4
      and cl = "''Eve''" and ct = "''regular''" and dq = 2 and p = ?p0]
  note c = startup_demo_sales [where clock = nat and st = ?st1 and pid = 4
      and cl = "''Eve''" and ct = "''regular''" and dq = 2 and p = ?p1]
  have 1: "length (sales (main_menu nat [])) = 5"
    using arg_cong [OF a [THEN conjunct1], of length] by simp
  have 2: "preload_step nat initial_ledger (''Zed'', ''vip'', 9, 1) = initial_ledger"
    using a [THEN conjunct2, THEN conjunct2, THEN conjunct2, THEN conjunct2, THEN conjunct2,
        THEN conjunct1] n
    by (rule mp)
  have 3: "preload_step nat ?st0 (''Eve'', ''regular'', 4, 2) = ?st0"
    using b [THEN conjunct2, THEN conjunct2, THEN conjunct2, THEN conjunct2, THEN conjunct2,
        THEN conjunct2, THEN conjunct1] m0
    by simp
  have "\<exists>s. sales (preload_step nat ?st1 (''Eve'', ''regular'', 4, 2)) = sales ?st1 @ [s]
          \<and> sale_id s = next_sale_id ?st1 \<and> client s = ''Eve'' \<and> product_id s = 4
          \<and> quantity s = min 2 (stock ?p1)"
    using c [THEN conjunct2, THEN conjunct2, THEN conjunct2, THEN conjunct2, THEN conjunct2,
        THEN conjunct2, THEN conjunct2] m1
    by simp
  then have 4: "map quantity (sales (preload_step nat ?st1 (''Eve'', ''regular'', 4, 2))) = [1]"
    unfolding s1 by auto
  show ?thesis using 1 2 3 4 by blast
qed

section \<open>Income report\<close>






section \<open>Top products\<close>

lemma sorted_reverse_mset: "mset (sorted_reverse k xs) = mset xs"
  by (simp add: sorted_reverse_def)

lemma sorted_reverse_descending: "sorted_wrt (\<lambda>a b. k b \<le> k a) (sorted_reverse k xs)"
proof -
  have "sorted (map (\<lambda>x. - k x) (sorted_reverse k xs))"
    unfolding sorted_reverse_def by (rule sorted_sort_key)
  then show ?thesis
    by (simp add: sorted_map sorted_wrt_iff_nth_less)
qed

lemma sorted_reverse_stable:
  "filter (\<lambda>x. k x = q) (sorted_reverse k xs) = filter (\<lambda>x. k x = q) xs"
proof -
  have "filter (\<lambda>x. - k x = - q) (sort_key (\<lambda>x. - k x) xs) = filter (\<lambda>x. - k x = - q) xs"
    by (rule sort_key_stable)
  then show ?thesis by (simp add: sorted_reverse_def)
qed

text \<open>
  C7. For a sales log that is not empty, the top-\<open>n\<close> report lists the first \<open>n\<close> entries
  of a ranking with their ranks from 1, where the ranking holds exactly the product
  ids of the sales log, each with the sum of its quantities over all sales, is in
  descending order of that sum, and keeps entries with equal sums in the order in
  which their ids first entered the sales log. The name shown is the product's name,
  or \<^verbatim>\<open>Deleted product\<close> when the id is not in the inventory.
\<close>

theorem top_n_ranking:
  assumes "sales st \<noteq> []"
  shows "\<exists>ranked.
           top_n_products (int n) st
             = Inr (map (\<lambda>(i, (pid, qty)).
                      (int i + 1,
                       (case map_of (inventory st) pid of
                          None \<Rightarrow> ''Deleted product'' | Some p \<Rightarrow> name p),
                       pid, qty))
                    (List.enumerate 0 (take n ranked)))
           \<and> mset ranked = mset (totals_per_product (sales st))
           \<and> sorted_wrt (\<lambda>a b. snd b \<le> snd a) ranked
           \<and> (\<forall>q. filter (\<lambda>e. snd e = q) ranked
                   = filter (\<lambda>e. snd e = q) (totals_per_product (sales st)))"
proof -
  let ?sold = "sold_per_product (sales st)"
  have t: "?sold = totals_per_product (sales st)"
    unfolding totals_per_product_def by (rule sold_per_product_eq)
  have "set (map fst ?sold) = product_id ` set (sales st)"
    unfolding t totals_per_product_def by (simp add: comp_def)
  then have ne: "?sold \<noteq> []" using assms by auto
  have top: "top_n_products (int n) st
      = Inr (map (top_line_of st) (List.enumerate 0 (take n (sorted_reverse snd ?sold))))"
    using ne by (simp add: top_n_products_def Let_def slice_to_def)
  have line: "top_line_of st = (\<lambda>(i, (pid, qty)).
                      (int i + 1,
                       (case map_of (inventory st) pid of
                          None \<Rightarrow> ''Deleted product'' | Some p \<Rightarrow> name p),
                       pid, qty))"
    by (auto simp add: top_line_of_def fun_eq_iff)
  show ?thesis
    unfolding top line
    by (intro exI [of _ "sorted_reverse snd ?sold"] conjI allI refl)
      (simp_all only: sorted_reverse_mset sorted_reverse_descending sorted_reverse_stable t)
qed

lemma tie_sales_log:
  "map (\<lambda>s. (product_id s, quantity s)) (sales (foldl perform initial_ledger
       [RegisterSale ''Ana'' '''' 3 2 0, RegisterSale ''Bo'' '''' 4 2 1,
        RegisterSale ''Cy'' '''' 2 5 2]))
     = [(3, 2), (4, 2), (2, 5)]"
  by (simp add: register_sale_def choose_product_id_def safe_int_def initial_ledger_def Let_def)

lemma units_sold_pairs:
  "units_sold pid ss
     = sum_list (map snd (filter (\<lambda>e. fst e = pid) (map (\<lambda>s. (product_id s, quantity s)) ss)))"
  by (induction ss) (simp_all add: units_sold_def)

lemma product_ids_pairs:
  "map product_id ss = map fst (map (\<lambda>s. (product_id s, quantity s)) ss)"
  by simp

lemma label_via_names:
  "(case map_of iv k of None \<Rightarrow> d | Some p \<Rightarrow> name p)
     = (case map_of (map (\<lambda>(pid, p). (pid, name p)) iv) k of None \<Rightarrow> d | Some n \<Rightarrow> n)"
  by (induction iv) auto

lemma tie_sales_names:
  "map (\<lambda>(pid, p). (pid, name p)) (inventory (foldl perform initial_ledger
       [RegisterSale ''Ana'' '''' 3 2 0, RegisterSale ''Bo'' '''' 4 2 1,
        RegisterSale ''Cy'' '''' 2 5 2]))
     = [(1, ''Aurora Headphones''), (2, ''Volt Charger 65W''), (3, ''Nexus 10 Tablet''),
        (4, ''PixelCam 4K''), (5, ''HomeSyx SmartPlug'')]"
  by (simp add: register_sale_def choose_product_id_def safe_int_def initial_ledger_def Let_def)

text \<open>
  The theorem after sales of 2 units of product 3, 2 units of product 4 and 5 units of
  product 2: the properties of the ranking leave one list only, product 2 first and
  product 3 before product 4, and the report for \<open>n = 2\<close> shows its first two entries.
\<close>

theorem top_n_ranking_witness:
  "top_n_products 2 (foldl perform initial_ledger
       [RegisterSale ''Ana'' '''' 3 2 0, RegisterSale ''Bo'' '''' 4 2 1,
        RegisterSale ''Cy'' '''' 2 5 2])
     = Inr [(1, ''Volt Charger 65W'', 2, 5), (2, ''Nexus 10 Tablet'', 3, 2)]"
proof -
  let ?st = "foldl perform initial_ledger
       [RegisterSale ''Ana'' '''' 3 2 0, RegisterSale ''Bo'' '''' 4 2 1,
        RegisterSale ''Cy'' '''' 2 5 2]"
  have ne: "sales ?st \<noteq> []" using tie_sales_log by auto
  have tot: "totals_per_product (sales ?st) = [(3, 2), (4, 2), (2, 5)]"
    unfolding totals_per_product_def units_sold_pairs product_ids_pairs tie_sales_log
    by (simp add: first_seen_def)
  obtain ranked where
    top: "top_n_products (int 2) ?st
             = Inr (map (\<lambda>(i, (pid, qty)).
                      (int i + 1,
                       (case map_of (inventory ?st) pid of
                          None \<Rightarrow> ''Deleted product'' | Some p \<Rightarrow> name p),
                       pid, qty))
                    (List.enumerate 0 (take 2 ranked)))"
    and m: "mset ranked = mset [(3, 2), (4, 2), (2, 5 :: int)]"
    and s: "sorted_wrt (\<lambda>a b. snd b \<le> snd a) ranked"
    and f: "\<And>q. filter (\<lambda>e. snd e = q) ranked = filter (\<lambda>e. snd e = q) [(3, 2), (4, 2), (2, 5)]"
    using top_n_ranking [OF ne, of 2] unfolding tot by blast
  have "sort_key (\<lambda>e. - snd e) [(3, 2), (4, 2), (2, 5 :: int)] = ranked"
  proof (rule properties_for_sort_key)
    show "mset ranked = mset [(3, 2), (4, 2), (2, 5)]" by (rule m)
    show "filter (\<lambda>x. - snd k = - snd x) ranked
        = filter (\<lambda>x. - snd k = - snd x) [(3, 2), (4, 2), (2, 5)]" for k
      using f [of "snd k"] by (simp add: eq_commute)
    show "sorted (map (\<lambda>e. - snd e) ranked)"
      using s by (simp add: sorted_map sorted_wrt_iff_nth_less)
  qed
  then have r: "ranked = [(2, 5), (3, 2), (4, 2)]" by simp
  show ?thesis
    using top unfolding r label_via_names tie_sales_names
    by (simp add: enumerate_eq_zip)
qed

end
